theory Spec2Isabelle
  imports Complex_Main "HOL-Library.Log_Nat"
begin

section \<open>Python values used by SeedVr2Server.py\<close>

text \<open>
  The server is Python: integers are unbounded (\<open>int\<close>), a \<open>float\<close> is an IEEE 754
  binary64 number, and every \<open>raise\<close> is a value of the type \<open>error\<close> below, returned
  on the left of a sum.
\<close>

datatype error =
    ZeroDivisionError
  | OverflowError
  | ValueError
  | RuntimeError string
  | TimeoutExpired
  | OSError
  | FileNotFoundError
  | UnidentifiedImageError
  | ValidationError

text \<open>
  A float is a finite binary64 value, kept as the rational number it denotes, an infinity,
  or a NaN. (The sign of a zero is not kept: nothing in the server reads it.)
\<close>

datatype pyfloat = Finite rat | PosInf | NegInf | NaN

subsection \<open>Rounding a rational number to binary64\<close>

text \<open>
  \<open>ilog2 x\<close> is the binary exponent of a positive rational: the \<open>e\<close> with
  \<open>2 powi e \<le> x < 2 powi (e + 1)\<close>. The difference of the bit lengths of numerator and
  denominator is that exponent or one more.
\<close>

definition ilog2 :: "rat \<Rightarrow> int" where
  "ilog2 x =
     (let (p, q) = quotient_of x;
          d = bitlen p - bitlen q
      in if 2 powi d \<le> x then d else d - 1)"

text \<open>Round to the nearest integer, a tie going to the even neighbour.\<close>

definition round_half_even :: "rat \<Rightarrow> int" where
  "round_half_even y =
     (let f = \<lfloor>y\<rfloor>;
          r = y - of_int f
      in if r < 1 / 2 then f
         else if 1 / 2 < r then f + 1
         else if even f then f else f + 1)"

text \<open>
  A binary64 number has 53 significant bits and a least exponent of \<open>-1074\<close> for its last
  bit; a rounded magnitude of \<open>2 ^ 1024\<close> or more has no finite representation.
\<close>

definition round_double_pos :: "rat \<Rightarrow> pyfloat" where
  "round_double_pos x =
     (let q = max (ilog2 x - 52) (- 1074);
          v = of_int (round_half_even (x / 2 powi q)) * 2 powi q
      in if 2 ^ 1024 \<le> v then PosInf else Finite v)"

definition float_neg :: "pyfloat \<Rightarrow> pyfloat" where
  "float_neg x = (case x of Finite v \<Rightarrow> Finite (- v) | PosInf \<Rightarrow> NegInf
                  | NegInf \<Rightarrow> PosInf | NaN \<Rightarrow> NaN)"

definition round_double :: "rat \<Rightarrow> pyfloat" where
  "round_double x =
     (if x = 0 then Finite 0
      else if 0 < x then round_double_pos x
      else float_neg (round_double_pos (- x)))"

subsection \<open>The arithmetic of \<open>int(width * (target_resolution / height))\<close>\<close>

text \<open>
  \<open>a / b\<close> on two Python integers is the correctly rounded quotient; it raises
  ZeroDivisionError for a zero divisor and OverflowError when the quotient is too large
  for a float.
\<close>

definition int_truediv :: "int \<Rightarrow> int \<Rightarrow> error + rat" where
  "int_truediv a b =
     (if b = 0 then Inl ZeroDivisionError
      else case round_double (of_int a / of_int b) of
             Finite v \<Rightarrow> Inr v
           | _ \<Rightarrow> Inl OverflowError)"

text \<open>An integer operand of a float operation is converted first, or OverflowError.\<close>

definition int_to_float :: "int \<Rightarrow> error + rat" where
  "int_to_float n =
     (case round_double (of_int n) of
        Finite v \<Rightarrow> Inr v
      | _ \<Rightarrow> Inl OverflowError)"

text \<open>The product of two finite floats is rounded, and overflows to an infinity.\<close>

definition float_mul :: "rat \<Rightarrow> rat \<Rightarrow> pyfloat" where
  "float_mul a b = round_double (a * b)"

definition int_mul_float :: "int \<Rightarrow> rat \<Rightarrow> error + pyfloat" where
  "int_mul_float n f =
     (case int_to_float n of
        Inl e \<Rightarrow> Inl e
      | Inr nf \<Rightarrow> Inr (float_mul nf f))"

text \<open>\<open>int(x)\<close> truncates toward zero; it raises on an infinity and on a NaN.\<close>

definition float_to_int :: "pyfloat \<Rightarrow> error + int" where
  "float_to_int x =
     (case x of
        Finite v \<Rightarrow> Inr (if 0 \<le> v then \<lfloor>v\<rfloor> else \<lceil>v\<rceil>)
      | NaN \<Rightarrow> Inl ValueError
      | _ \<Rightarrow> Inl OverflowError)"

section \<open>The tile and offload planner: \<open>calculate_tile_settings\<close>\<close>

text \<open>
  \<open>scaled_side a t b\<close> is the expression \<open>int(a * (t / b))\<close>, which the source writes once
  with \<open>(width, height)\<close> and once with \<open>(height, width)\<close> for \<open>(a, b)\<close>.
\<close>

definition scaled_side :: "int \<Rightarrow> int \<Rightarrow> int \<Rightarrow> error + int" where
  "scaled_side a t b =
     (case int_truediv t b of
        Inl e \<Rightarrow> Inl e
      | Inr ratio \<Rightarrow>
          (case int_mul_float a ratio of
             Inl e \<Rightarrow> Inl e
           | Inr product \<Rightarrow> float_to_int product))"

text \<open>Lines 155 to 160: the output dimensions \<open>(out_width, out_height)\<close>.\<close>

definition output_dimensions :: "int \<Rightarrow> int \<Rightarrow> int \<Rightarrow> error + (int \<times> int)" where
  "output_dimensions width height target_resolution =
     (if height < width then
        (case scaled_side width target_resolution height of
           Inl e \<Rightarrow> Inl e
         | Inr out_width \<Rightarrow> Inr (out_width, target_resolution))
      else
        (case scaled_side height target_resolution width of
           Inl e \<Rightarrow> Inl e
         | Inr out_height \<Rightarrow> Inr (target_resolution, out_height)))"

text \<open>Lines 167 to 174: the tile size chosen from \<open>max_dim\<close>.\<close>

definition select_tile_size :: "int \<Rightarrow> int" where
  "select_tile_size max_dim =
     (if max_dim \<le> 1024 then 512
      else if max_dim \<le> 2048 then 512
      else if max_dim \<le> 4096 then 384
      else 256)"

text \<open>Lines 182 to 191: the number of transformer blocks to offload, from \<open>total_pixels\<close>.\<close>

definition select_blocks_to_swap :: "int \<Rightarrow> int" where
  "select_blocks_to_swap total_pixels =
     (if total_pixels > 40000000 then 32
      else if total_pixels > 25000000 then 24
      else if total_pixels > 16000000 then 16
      else if total_pixels > 9000000 then 8
      else 0)"

text \<open>The whole function: it returns \<open>(tile_size, tile_overlap, blocks_to_swap)\<close>.\<close>

definition calculate_tile_settings :: "int \<Rightarrow> int \<Rightarrow> int \<Rightarrow> error + (int \<times> int \<times> int)" where
  "calculate_tile_settings width height target_resolution =
     (case output_dimensions width height target_resolution of
        Inl e \<Rightarrow> Inl e
      | Inr (out_width, out_height) \<Rightarrow>
          (let max_dim = max out_width out_height;
               total_pixels = out_width * out_height;
               tile_size = select_tile_size max_dim;
               tile_overlap = max 64 (tile_size div 4);
               blocks_to_swap = select_blocks_to_swap total_pixels
           in Inr (tile_size, tile_overlap, blocks_to_swap)))"

section \<open>The request model: \<open>UpscaleRequest\<close>\<close>

text \<open>
  The fields of the pydantic model. The two noise scales are floats; \<open>image_base64\<close> is not
  read by anything below.
\<close>

record UpscaleRequest =
  name :: string
  resolution :: int
  max_resolution :: int
  seed :: int
  color_correction :: string
  input_noise_scale :: pyfloat
  latent_noise_scale :: pyfloat
  image_base64 :: string

text \<open>
  The validator of \<open>resolution\<close> (lines 140 to 145). It runs before type coercion; the value
  is modelled where it is an integer or \<open>None\<close>.
\<close>

definition ensure_minimum_resolution :: "int option \<Rightarrow> int" where
  "ensure_minimum_resolution v =
     (case v of
        None \<Rightarrow> 1080
      | Some n \<Rightarrow> if n < 64 then 1080 else n)"

text \<open>
  What the request body holds for a field: nothing, or a value (\<open>Given None\<close> is an explicit
  null). \<open>resolution_field\<close> is the field as declared on line 132 with its validator:
  \<open>always=True\<close> hands the default \<open>1080\<close> to the validator when the field is missing, and
  \<open>ge=64\<close> is checked on what the validator returns.
\<close>

datatype 'a field_input = Missing | Given 'a

definition resolution_field :: "int option field_input \<Rightarrow> error + int" where
  "resolution_field raw =
     (let v = (case raw of Missing \<Rightarrow> Some 1080 | Given x \<Rightarrow> x);
          r = ensure_minimum_resolution v
      in if 64 \<le> r then Inr r else Inl ValidationError)"


section \<open>The inference invoker: \<open>upscale_with_cli\<close>\<close>

subsection \<open>Strings and paths\<close>

text \<open>The decimal digits of a natural number, and the decimal text of an integer.\<close>

function digits :: "nat \<Rightarrow> string" where
  "digits n = (if n < 10 then [''0123456789'' ! n]
               else digits (n div 10) @ [''0123456789'' ! (n mod 10)])"
  by pat_completeness auto
termination
  by (relation "measure id") auto

declare digits.simps [simp del]

definition int_text :: "int \<Rightarrow> string" where
  "int_text n = (if n < 0 then CHR ''-'' # digits (nat (- n)) else digits (nat n))"

text \<open>
  \<open>str\<close> on an integer. CPython limits the conversion: with a limit
  \<open>sys.get_int_max_str_digits()\<close> other than 0 (4300 unless configured, never below 640),
  a text longer than 640 characters whose digits outnumber the limit raises ValueError.
  An interpreter without the limit has the limit 0.
\<close>

definition str_int :: "nat \<Rightarrow> int \<Rightarrow> error + string" where
  "str_int max_str_digits n =
     (let ndigits = length (digits (nat \<bar>n\<bar>));
          strlen = (if n < 0 then ndigits + 1 else ndigits)
      in if 640 < strlen \<and> 0 < max_str_digits \<and> max_str_digits < ndigits
         then Inl ValueError
         else Inr (int_text n))"

text \<open>\<open>Path / name\<close>, rendered with the POSIX separator.\<close>

definition path_join :: "string \<Rightarrow> string \<Rightarrow> string" where
  "path_join dir file = dir @ ''/'' @ file"

text \<open>\<open>x > 0\<close> on a float; a comparison with a NaN is false.\<close>

definition float_gt_zero :: "pyfloat \<Rightarrow> bool" where
  "float_gt_zero x = (case x of Finite v \<Rightarrow> 0 < v | PosInf \<Rightarrow> True | _ \<Rightarrow> False)"

subsection \<open>The world around one invocation\<close>

text \<open>
  Of the decoded image only its size is read. After the run the scratch directory is
  either gone, or present with its output directory: a list of named entries in the order
  the operating system lists them, or \<open>None\<close> when the output directory is gone.
\<close>

record pil_image =
  width :: int
  height :: int

datatype node = RegularFile string | Directory

type_synonym listing = "(string \<times> node) list"

datatype scratch_dir = ScratchGone | Scratch "listing option"

text \<open>
  \<open>subprocess.run\<close> with a timeout completes, with a return code, the captured stdout and
  stderr, and the scratch directory it leaves behind; or it raises TimeoutExpired; or it
  raises before the process runs (a missing interpreter, a null byte in an argument).
\<close>

datatype run_outcome =
    Completed int string string scratch_dir
  | TimedOut
  | RunFailed error

text \<open>
  What the platform supplies: \<open>sys.executable\<close>, the repository directory, the directory
  that \<open>tempfile.mkdtemp\<close> returns, the limit on integer texts, \<open>str\<close> on a float, the
  error that \<open>output_dir.mkdir()\<close> and \<open>image.save\<close> raise if any, the external tool, the
  size that \<open>Image.open\<close> reads from the bytes of a file (\<open>None\<close> when they are no image),
  and whether the deletion of the scratch directory works.
\<close>

record environment =
  executable :: string
  repo_dir :: string
  tmpdir :: string
  int_max_str_digits :: nat
  str_float :: "pyfloat \<Rightarrow> string"
  mkdir_output :: "error option"
  image_save :: "pil_image \<Rightarrow> error option"
  subprocess_run :: "string list \<Rightarrow> run_outcome"
  image_size :: "string \<Rightarrow> (int \<times> int) option"
  rmtree_succeeds :: bool

text \<open>
  \<open>image.save(input_path, "PNG")\<close>: the encoder refuses an image without pixels with a
  ValueError; otherwise the outcome is the platform's.
\<close>

definition save_image :: "environment \<Rightarrow> pil_image \<Rightarrow> error option" where
  "save_image env img =
     (if width img \<le> 0 \<or> height img \<le> 0 then Some ValueError else image_save env img)"

subsection \<open>Building the command (lines 236 to 273)\<close>

text \<open>
  The arguments in the order of the source. Every \<open>str\<close> of an integer can raise, and does
  so where the source evaluates it: the resolution and the seed in the first list, the
  maximal resolution under its test, the plan's numbers after the planner has run.
\<close>

definition build_command :: "environment \<Rightarrow> pil_image \<Rightarrow> UpscaleRequest \<Rightarrow> error + string list" where
  "build_command env img request =
     (let input_path = path_join (tmpdir env) ''input.png'';
          output_dir = path_join (tmpdir env) ''output'';
          limit = int_max_str_digits env
      in case str_int limit (resolution request) of
           Inl e \<Rightarrow> Inl e
         | Inr resolution_str \<Rightarrow>
      (case str_int limit (seed request) of
           Inl e \<Rightarrow> Inl e
         | Inr seed_str \<Rightarrow>
      (let cmd = [executable env, path_join (repo_dir env) ''inference_cli.py'',
                  input_path,
                  ''--output'', output_dir,
                  ''--resolution'', resolution_str,
                  ''--seed'', seed_str,
                  ''--color_correction'', color_correction request,
                  ''--batch_size'', ''1'']
       in case (if max_resolution request > 0
                then (case str_int limit (max_resolution request) of
                        Inl e \<Rightarrow> Inl e
                      | Inr max_resolution_str \<Rightarrow>
                          Inr (cmd @ [''--max_resolution'', max_resolution_str]))
                else Inr cmd) of
            Inl e \<Rightarrow> Inl e
          | Inr cmd \<Rightarrow>
      (let cmd = (if float_gt_zero (input_noise_scale request)
                  then cmd @ [''--input_noise_scale'', str_float env (input_noise_scale request)]
                  else cmd);
           cmd = (if float_gt_zero (latent_noise_scale request)
                  then cmd @ [''--latent_noise_scale'', str_float env (latent_noise_scale request)]
                  else cmd)
       in case calculate_tile_settings (width img) (height img) (resolution request) of
            Inl e \<Rightarrow> Inl e
          | Inr (tile_size, tile_overlap, blocks_to_swap) \<Rightarrow>
      (case str_int limit tile_size of
           Inl e \<Rightarrow> Inl e
         | Inr tile_size_str \<Rightarrow>
      (case str_int limit tile_overlap of
           Inl e \<Rightarrow> Inl e
         | Inr tile_overlap_str \<Rightarrow>
      (let cmd = cmd @ [''--vae_encode_tiled''];
           cmd = cmd @ [''--vae_decode_tiled''];
           cmd = cmd @ [''--vae_encode_tile_size'', tile_size_str];
           cmd = cmd @ [''--vae_decode_tile_size'', tile_size_str];
           cmd = cmd @ [''--vae_encode_tile_overlap'', tile_overlap_str];
           cmd = cmd @ [''--vae_decode_tile_overlap'', tile_overlap_str]
       in if blocks_to_swap > 0
          then (case str_int limit blocks_to_swap of
                  Inl e \<Rightarrow> Inl e
                | Inr blocks_to_swap_str \<Rightarrow>
                    Inr (cmd @ [''--blocks_to_swap'', blocks_to_swap_str]
                             @ [''--dit_offload_device'', ''cpu'']
                             @ [''--swap_io_components'']))
          else Inr cmd)))))))"

subsection \<open>Finding and loading the output (lines 301 to 330)\<close>

definition output_listing :: "scratch_dir \<Rightarrow> listing option" where
  "output_listing scratch = (case scratch of ScratchGone \<Rightarrow> None | Scratch outdir \<Rightarrow> outdir)"

text \<open>\<open>(output_dir / file).exists()\<close>.\<close>

definition path_exists :: "scratch_dir \<Rightarrow> string \<Rightarrow> bool" where
  "path_exists scratch file =
     (case output_listing scratch of
        None \<Rightarrow> False
      | Some entries \<Rightarrow> map_of entries file \<noteq> None)"

text \<open>The pattern \<open>*.png\<close>: any name that ends in \<open>.png\<close>.\<close>

definition matches_png :: "string \<Rightarrow> bool" where
  "matches_png file = (drop (length file - 4) file = ''.png'')"

definition glob_png :: "listing \<Rightarrow> string list" where
  "glob_png entries = filter matches_png (map fst entries)"

text \<open>
  The result is the name of the chosen file inside the output directory. When nothing is
  found the source first prints the entries of the scratch directory, which raises
  FileNotFoundError when that directory is gone, and then raises its own error with the
  captured stdout.
\<close>

definition locate_output :: "scratch_dir \<Rightarrow> string \<Rightarrow> error + string" where
  "locate_output scratch stdout =
     (if path_exists scratch ''input.png'' then Inr ''input.png''
      else
        (let output_files = (case output_listing scratch of
                               Some entries \<Rightarrow> glob_png entries
                             | None \<Rightarrow> [])
         in case output_files of
              first # _ \<Rightarrow> Inr first
            | [] \<Rightarrow>
                (case scratch of
                   ScratchGone \<Rightarrow> Inl FileNotFoundError
                 | Scratch _ \<Rightarrow>
                     Inl (RuntimeError (''No output file found. CLI output: '' @ stdout)))))"

text \<open>\<open>read_bytes\<close> and then the size read back through \<open>Image.open\<close>.\<close>

definition load_output :: "environment \<Rightarrow> scratch_dir \<Rightarrow> string \<Rightarrow> error + (string \<times> int \<times> int)" where
  "load_output env scratch file =
     (case output_listing scratch of
        None \<Rightarrow> Inl FileNotFoundError
      | Some entries \<Rightarrow>
          (case map_of entries file of
             Some (RegularFile output_bytes) \<Rightarrow>
               (case image_size env output_bytes of
                  Some (w, h) \<Rightarrow> Inr (output_bytes, w, h)
                | None \<Rightarrow> Inl UnidentifiedImageError)
           | Some Directory \<Rightarrow> Inl OSError
           | None \<Rightarrow> Inl FileNotFoundError))"

subsection \<open>The body of the \<open>try\<close> statement and its \<open>finally\<close> clause\<close>

text \<open>
  The body creates the output directory, saves the input image, builds the command, runs
  it, and finds and loads the output; the first step that raises ends it.
\<close>

definition try_block :: "environment \<Rightarrow> pil_image \<Rightarrow> UpscaleRequest \<Rightarrow> error + (string \<times> int \<times> int)" where
  "try_block env img request =
     (case mkdir_output env of
        Some e \<Rightarrow> Inl e
      | None \<Rightarrow>
     (case save_image env img of
        Some e \<Rightarrow> Inl e
      | None \<Rightarrow>
     (case build_command env img request of
        Inl e \<Rightarrow> Inl e
      | Inr cmd \<Rightarrow>
          (case subprocess_run env cmd of
             TimedOut \<Rightarrow> Inl TimeoutExpired
           | RunFailed e \<Rightarrow> Inl e
           | Completed returncode stdout stderr scratch \<Rightarrow>
               if returncode \<noteq> 0
               then Inl (RuntimeError (''CLI failed: '' @ (if stderr \<noteq> [] then stderr else stdout)))
               else (case locate_output scratch stdout of
                       Inl e \<Rightarrow> Inl e
                     | Inr output_file \<Rightarrow> load_output env scratch output_file)))))"

text \<open>
  The state is the set of directories under the system's temporary directory.
  \<open>shutil.rmtree(tmpdir, ignore_errors=True)\<close> raises nothing: it removes the directory or,
  when the deletion fails, leaves it. Its result is the exception raised, if any, and the
  new state.
\<close>

definition rmtree_ignore_errors :: "environment \<Rightarrow> string set \<Rightarrow> error option \<times> string set" where
  "rmtree_ignore_errors env dirs =
     (None, if rmtree_succeeds env then dirs - {tmpdir env} else dirs)"

text \<open>The \<open>finally\<close> clause: the call sits in a \<open>try\<close> whose handler only prints a warning.\<close>

definition finally_clause :: "environment \<Rightarrow> string set \<Rightarrow> error option \<times> string set" where
  "finally_clause env dirs =
     (case rmtree_ignore_errors env dirs of
        (Some e, dirs') \<Rightarrow> (None, dirs')
      | (None, dirs') \<Rightarrow> (None, dirs'))"

text \<open>
  A \<open>try\<close> with a \<open>finally\<close>: an exception leaving the \<open>finally\<close> clause replaces the outcome
  of the body; otherwise the body's outcome stands.
\<close>

definition try_finally :: "error + 'a \<Rightarrow> error option \<Rightarrow> error + 'a" where
  "try_finally outcome raised = (case raised of Some e \<Rightarrow> Inl e | None \<Rightarrow> outcome)"

definition upscale_with_cli ::
    "environment \<Rightarrow> string set \<Rightarrow> pil_image \<Rightarrow> UpscaleRequest
       \<Rightarrow> (error + (string \<times> int \<times> int)) \<times> string set" where
  "upscale_with_cli env dirs img request =
     (let dirs = insert (tmpdir env) dirs;
          outcome = try_block env img request;
          (raised, dirs) = finally_clause env dirs
      in (try_finally outcome raised, dirs))"

subsection \<open>Option names\<close>

text \<open>An argument is an option name when it starts with two dashes.\<close>

fun is_option :: "string \<Rightarrow> bool" where
  "is_option (a # b # _) = (a = CHR ''-'' \<and> b = CHR ''-'')"
| "is_option _ = False"

subsection \<open>Sample invocations\<close>

text \<open>
  A concrete environment, image and request, on which the theorems below are instantiated:
  an 8000 by 6000 image upscaled to a short side of 6000, with an input noise scale of one
  half; the external tool exits with code zero and leaves three files, none of them named
  \<open>input.png\<close>.
\<close>

definition sample_str_float :: "pyfloat \<Rightarrow> string" where
  "sample_str_float x =
     (case x of
        Finite v \<Rightarrow> (if v = 1 / 2 then ''0.5'' else ''0.0'')
      | PosInf \<Rightarrow> ''inf'' | NegInf \<Rightarrow> ''-inf'' | NaN \<Rightarrow> ''nan'')"

definition sample_listing :: listing where
  "sample_listing =
     [(''log.txt'', RegularFile ''done''),
      (''result.png'', RegularFile ''PNG-1''),
      (''other.png'', RegularFile ''PNG-2'')]"

definition sample_env :: environment where
  "sample_env =
     \<lparr>executable = ''/usr/bin/python3'',
      repo_dir = ''/srv/ComfyUI-SeedVR2_VideoUpscaler'',
      tmpdir = ''/tmp/tmpab12'',
      int_max_str_digits = 4300,
      str_float = sample_str_float,
      mkdir_output = None,
      image_save = (\<lambda>img. None),
      subprocess_run = (\<lambda>cmd. Completed 0 ''saved'' [] (Scratch (Some sample_listing))),
      image_size = (\<lambda>bytes. if bytes = ''PNG-1'' \<or> bytes = ''JPEG-1''
                             then Some (8000, 6000) else None),
      rmtree_succeeds = True\<rparr>"

definition sample_image :: pil_image where
  "sample_image = \<lparr>width = 8000, height = 6000\<rparr>"

definition sample_request :: UpscaleRequest where
  "sample_request =
     \<lparr>name = ''job'', resolution = 6000, max_resolution = 0, seed = 42,
      color_correction = ''lab'', input_noise_scale = Finite (1 / 2),
      latent_noise_scale = Finite 0, image_base64 = []\<rparr>"

definition sample_cmd :: "string list" where
  "sample_cmd =
     [''/usr/bin/python3'', ''/srv/ComfyUI-SeedVR2_VideoUpscaler/inference_cli.py'',
      ''/tmp/tmpab12/input.png'', ''--output'', ''/tmp/tmpab12/output'',
      ''--resolution'', ''6000'', ''--seed'', ''42'', ''--color_correction'', ''lab'',
      ''--batch_size'', ''1'', ''--input_noise_scale'', ''0.5'',
      ''--vae_encode_tiled'', ''--vae_decode_tiled'',
      ''--vae_encode_tile_size'', ''256'', ''--vae_decode_tile_size'', ''256'',
      ''--vae_encode_tile_overlap'', ''64'', ''--vae_decode_tile_overlap'', ''64'',
      ''--blocks_to_swap'', ''32'', ''--dit_offload_device'', ''cpu'',
      ''--swap_io_components'']"

text \<open>The same invocation with a tool that exits with code one and a deletion that fails.\<close>

definition sample_failing_env :: environment where
  "sample_failing_env =
     sample_env\<lparr>subprocess_run := (\<lambda>cmd. Completed 1 [] ''boom'' (Scratch None)),
                rmtree_succeeds := False\<rparr>"



text \<open>
  A 1920 by 1080 image kept at a short side of 1080, which needs no offloading, with
  requests whose colour-correction mode is the name of an option.
\<close>

definition small_image :: pil_image where
  "small_image = \<lparr>width = 1920, height = 1080\<rparr>"

definition small_request :: "string \<Rightarrow> UpscaleRequest" where
  "small_request mode =
     \<lparr>name = ''job'', resolution = 1080, max_resolution = 0, seed = 42,
      color_correction = mode, input_noise_scale = Finite 0,
      latent_noise_scale = Finite 0, image_base64 = []\<rparr>"

definition small_cmd :: "string \<Rightarrow> string list" where
  "small_cmd mode =
     [''/usr/bin/python3'', ''/srv/ComfyUI-SeedVR2_VideoUpscaler/inference_cli.py'',
      ''/tmp/tmpab12/input.png'', ''--output'', ''/tmp/tmpab12/output'',
      ''--resolution'', ''1080'', ''--seed'', ''42'', ''--color_correction'', mode,
      ''--batch_size'', ''1'',
      ''--vae_encode_tiled'', ''--vae_decode_tiled'',
      ''--vae_encode_tile_size'', ''512'', ''--vae_decode_tile_size'', ''512'',
      ''--vae_encode_tile_overlap'', ''128'', ''--vae_decode_tile_overlap'', ''128'']"

section \<open>Properties of the planner\<close>

subsection \<open>The accuracy of the rounded arithmetic\<close>

lemma ilog2_lower:
  assumes "0 < x"
  shows "2 powi (ilog2 x) \<le> x"
proof -
  obtain p q where pq: "quotient_of x = (p, q)" by (cases "quotient_of x")
  have qpos: "0 < q" using quotient_of_denom_pos[OF pq] .
  have xeq: "x = of_int p / of_int q" using quotient_of_div[OF pq] .
  have ppos: "0 < p" using assms qpos xeq by (simp add: zero_less_divide_iff)
  define d where "d = bitlen p - bitlen q"
  show ?thesis
  proof (cases "2 powi d \<le> x")
    case True
    then show ?thesis by (simp add: ilog2_def pq d_def)
  next
    case False
    then have e: "ilog2 x = d - 1" by (simp add: ilog2_def pq d_def)
    have bp: "1 \<le> bitlen p" using ppos by (simp add: bitlen_alt_def)
    have bq: "1 \<le> bitlen q" using qpos by (simp add: bitlen_alt_def)
    have lp: "(2::int) ^ nat (bitlen p - 1) \<le> p" using bitlen_bounds[OF ppos] by simp
    have uq: "q < (2::int) ^ nat (bitlen q)" using bitlen_bounds[OF qpos] by simp
    have lp': "(2::rat) powi (bitlen p - 1) \<le> of_int p"
    proof -
      have "(of_int ((2::int) ^ nat (bitlen p - 1)) :: rat) \<le> of_int p"
        using lp by (simp only: of_int_le_iff)
      then show ?thesis using bp by (simp add: power_int_def)
    qed
    have uq': "of_int q \<le> (2::rat) powi (bitlen q)"
    proof -
      have "(of_int q :: rat) \<le> of_int ((2::int) ^ nat (bitlen q))"
        using uq by (simp only: of_int_le_iff)
      then show ?thesis using bq by (simp add: power_int_def)
    qed
    have "(2::rat) powi (d - 1) = 2 powi (bitlen p - 1) / 2 powi (bitlen q)"
      by (simp add: d_def power_int_diff)
    also have "\<dots> \<le> of_int p / 2 powi (bitlen q)"
      using lp' by (simp add: divide_right_mono)
    also have "\<dots> \<le> of_int p / of_int q"
      using uq' qpos ppos by (simp add: divide_left_mono)
    finally show ?thesis using e xeq by simp
  qed
qed

lemma ilog2_upper:
  assumes "0 < x"
  shows "x < 2 powi (ilog2 x + 1)"
proof -
  obtain p q where pq: "quotient_of x = (p, q)" by (cases "quotient_of x")
  have qpos: "0 < q" using quotient_of_denom_pos[OF pq] .
  have xeq: "x = of_int p / of_int q" using quotient_of_div[OF pq] .
  have ppos: "0 < p" using assms qpos xeq by (simp add: zero_less_divide_iff)
  define d where "d = bitlen p - bitlen q"
  show ?thesis
  proof (cases "2 powi d \<le> x")
    case False
    then show ?thesis by (simp add: ilog2_def pq d_def)
  next
    case True
    then have e: "ilog2 x = d" by (simp add: ilog2_def pq d_def)
    have bp: "1 \<le> bitlen p" using ppos by (simp add: bitlen_alt_def)
    have bq: "1 \<le> bitlen q" using qpos by (simp add: bitlen_alt_def)
    have up: "of_int p < (2::rat) powi (bitlen p)"
    proof -
      have "(of_int p :: rat) < of_int ((2::int) ^ nat (bitlen p))"
        using bitlen_bounds[OF ppos] by (simp only: of_int_less_iff)
      then show ?thesis using bp by (simp add: power_int_def)
    qed
    have lq: "(2::rat) powi (bitlen q - 1) \<le> of_int q"
    proof -
      have "(of_int ((2::int) ^ nat (bitlen q - 1)) :: rat) \<le> of_int q"
        using bitlen_bounds[OF qpos] by (simp only: of_int_le_iff)
      then show ?thesis using bq by (simp add: power_int_def)
    qed
    have lqpos: "(0::rat) < 2 powi (bitlen q - 1)" by (simp add: zero_less_power_int)
    have "of_int p / of_int q < (2::rat) powi (bitlen p) / of_int q"
      using up qpos by (simp add: divide_strict_right_mono)
    also have "\<dots> \<le> 2 powi (bitlen p) / 2 powi (bitlen q - 1)"
      using lq lqpos qpos by (intro divide_left_mono) (simp_all add: zero_le_power_int)
    also have "\<dots> = 2 powi (bitlen p - (bitlen q - 1))"
      by (simp only: power_int_diff[of "2::rat", simplified])
    also have "bitlen p - (bitlen q - 1) = d + 1"
      by (simp add: d_def)
    finally show ?thesis using e xeq by simp
  qed
qed

lemma round_half_even_err: "\<bar>of_int (round_half_even y) - y\<bar> \<le> 1 / 2"
proof -
  have lo: "of_int \<lfloor>y\<rfloor> \<le> y" and hi: "y < of_int \<lfloor>y\<rfloor> + 1"
    by linarith+
  show ?thesis
    unfolding round_half_even_def Let_def using lo hi
    by (simp add: abs_le_iff)
qed

lemma round_double_pos_err:
  assumes lo: "1 / 2 ^ 1022 \<le> x" and hi: "x < 2 ^ 1023"
  shows "\<exists>v. round_double_pos x = Finite v \<and> \<bar>v - x\<bar> \<le> x / 2 ^ 53"
proof -
  have xpos: "0 < x" using lo by (rule less_le_trans[rotated]) simp
  define q where "q = max (ilog2 x - 52) (- 1074)"
  define m where "m = round_half_even (x / 2 powi q)"
  define v where "v = of_int m * (2::rat) powi q"
  have qpos: "(0::rat) < 2 powi q" by (simp add: zero_less_power_int)
  have "\<bar>of_int m - x / 2 powi q\<bar> \<le> 1 / 2"
    unfolding m_def by (rule round_half_even_err)
  then have "\<bar>of_int m - x / 2 powi q\<bar> * 2 powi q \<le> 1 / 2 * 2 powi q"
    using qpos by (simp only: mult_le_cancel_right_pos)
  moreover have "\<bar>of_int m - x / 2 powi q\<bar> * 2 powi q = \<bar>v - x\<bar>"
  proof -
    have "\<bar>of_int m - x / 2 powi q\<bar> * 2 powi q = \<bar>(of_int m - x / 2 powi q) * 2 powi q\<bar>"
      using qpos by (simp add: abs_mult)
    also have "(of_int m - x / 2 powi q) * 2 powi q = v - x"
      using qpos by (simp add: v_def field_simps)
    finally show ?thesis .
  qed
  ultimately have err: "\<bar>v - x\<bar> \<le> 2 powi q / 2" by simp
  have quantum: "(2::rat) powi q / 2 \<le> x / 2 ^ 53"
  proof (cases "- 1074 \<le> ilog2 x - 52")
    case True
    then have "q = ilog2 x - 52" by (simp add: q_def)
    then have "(2::rat) powi q / 2 = 2 powi (ilog2 x) / 2 ^ 53"
      by (simp add: power_int_diff)
    also have "\<dots> \<le> x / 2 ^ 53"
      using ilog2_lower[OF xpos] by (simp add: divide_right_mono)
    finally show ?thesis .
  next
    case False
    then have "q = - 1074" by (simp add: q_def)
    then have "(2::rat) powi q / 2 = (1 / 2 ^ 1022) / 2 ^ 53"
      by (simp add: power_int_minus_divide)
    also have "\<dots> \<le> x / 2 ^ 53"
      using lo by (simp only: divide_right_mono zero_le_power zero_le_numeral)
    finally show ?thesis .
  qed
  have bound: "\<bar>v - x\<bar> \<le> x / 2 ^ 53" using err quantum by linarith
  have "v - x \<le> \<bar>v - x\<bar>" by simp
  then have "v \<le> x + x / 2 ^ 53" using bound by linarith
  also have "\<dots> \<le> x + x" using xpos by (simp add: field_simps)
  also have "\<dots> < 2 ^ 1024" using hi by simp
  finally have fin: "\<not> 2 ^ 1024 \<le> v" by simp
  have "round_double_pos x = Finite v"
    using fin by (simp add: round_double_pos_def Let_def q_def[symmetric] m_def[symmetric] v_def[symmetric])
  then show ?thesis using bound by blast
qed


lemma round_double_err:
  assumes "1 / 2 ^ 1022 \<le> x" and "x < 2 ^ 1023"
  shows "\<exists>v. round_double x = Finite v \<and> \<bar>v - x\<bar> \<le> x / 2 ^ 53"
proof -
  have "0 < x" using assms(1) by (rule less_le_trans[rotated]) simp
  then have "round_double x = round_double_pos x" by (simp add: round_double_def)
  then show ?thesis using round_double_pos_err[OF assms] by simp
qed

lemma rel_err_bounds:
  fixes v x :: rat
  assumes "\<bar>v - x\<bar> \<le> x / 2 ^ 53"
  shows "x * (1 - 1 / 2 ^ 53) \<le> v" and "v \<le> x * (1 + 1 / 2 ^ 53)"
proof -
  have "x - v \<le> \<bar>v - x\<bar>" and "v - x \<le> \<bar>v - x\<bar>" by simp_all
  then have "x - x / 2 ^ 53 \<le> v" and "v \<le> x + x / 2 ^ 53" using assms by linarith+
  then show "x * (1 - 1 / 2 ^ 53) \<le> v" and "v \<le> x * (1 + 1 / 2 ^ 53)"
    by (simp_all add: algebra_simps)
qed

lemma triple_rounding:
  fixes a x1 af f F :: rat
  assumes a: "0 < a" and x1: "0 < x1"
    and af: "\<bar>af - a\<bar> \<le> a / 2 ^ 53"
    and f: "\<bar>f - x1\<bar> \<le> x1 / 2 ^ 53"
    and F: "\<bar>F - af * f\<bar> \<le> (af * f) / 2 ^ 53"
  shows "a * x1 - (a * x1) / 2 ^ 51 \<le> F" and "F \<le> a * x1 + (a * x1) / 2 ^ 51"
proof -
  define c :: rat where "c = 1 + 1 / 2 ^ 53"
  define d :: rat where "d = 1 - 1 / 2 ^ 53"
  have cpos: "0 \<le> c" and dpos: "0 \<le> d" by (simp_all add: c_def d_def)
  have c3: "c * c * c \<le> 1 + 1 / 2 ^ 51" by (simp add: c_def)
  have d3: "1 - 1 / 2 ^ 51 \<le> d * d * d" by (simp add: d_def)
  have af_lo: "a * d \<le> af" and af_hi: "af \<le> a * c"
    using rel_err_bounds[OF af] by (simp_all add: c_def d_def)
  have f_lo: "x1 * d \<le> f" and f_hi: "f \<le> x1 * c"
    using rel_err_bounds[OF f] by (simp_all add: c_def d_def)
  have F_lo: "(af * f) * d \<le> F" and F_hi: "F \<le> (af * f) * c"
    using rel_err_bounds[OF F] by (simp_all add: c_def d_def)
  have af0: "0 \<le> af" using af_lo a dpos by (meson mult_nonneg_nonneg less_imp_le order_trans)
  have f0: "0 \<le> f" using f_lo x1 dpos by (meson mult_nonneg_nonneg less_imp_le order_trans)
  have ad0: "0 \<le> a * d" using a dpos by simp
  have xd0: "0 \<le> x1 * d" using x1 dpos by simp
  have y_hi: "af * f \<le> (a * c) * (x1 * c)"
    using af_hi f_hi af0 f0 a cpos by (intro mult_mono) simp_all
  have y_lo: "(a * d) * (x1 * d) \<le> af * f"
    using af_lo f_lo ad0 xd0 af0 by (intro mult_mono) simp_all
  have ax0: "0 \<le> a * x1" using a x1 by simp
  have "F \<le> ((a * c) * (x1 * c)) * c"
    using F_hi y_hi cpos by (meson mult_right_mono order_trans)
  also have "\<dots> = (a * x1) * (c * c * c)" by (simp add: mult_ac)
  also have "\<dots> \<le> (a * x1) * (1 + 1 / 2 ^ 51)"
    using c3 ax0 by (rule mult_left_mono)
  finally show "F \<le> a * x1 + (a * x1) / 2 ^ 51" by (simp add: algebra_simps)
  have "(a * x1) * (1 - 1 / 2 ^ 51) \<le> (a * x1) * (d * d * d)"
    using d3 ax0 by (rule mult_left_mono)
  also have "\<dots> = ((a * d) * (x1 * d)) * d" by (simp add: mult_ac)
  also have "\<dots> \<le> (af * f) * d" using y_lo dpos by (rule mult_right_mono)
  also have "\<dots> \<le> F" by (rule F_lo)
  finally show "a * x1 - (a * x1) / 2 ^ 51 \<le> F" by (simp add: algebra_simps)
qed


lemma scaled_side_bounds:
  assumes a: "0 < a" and b: "0 < b" and t: "0 < t" and ba: "b \<le> a"
    and small: "a * t < 2 ^ 51"
  shows "\<exists>r. scaled_side a t b = Inr r \<and> (a * t) div b - 1 \<le> r \<and> r \<le> (a * t) div b
           \<and> ((a * t) mod b \<noteq> 0 \<longrightarrow> r = (a * t) div b)"
proof -
  define x1 :: rat where "x1 = of_int t / of_int b"
  define ar :: rat where "ar = of_int a"
  have a51: "a < 2 ^ 51"
  proof -
    have "a * 1 \<le> a * t" using a t by (intro mult_left_mono) simp_all
    then show ?thesis using small by simp
  qed
  have t51: "t < 2 ^ 51"
  proof -
    have "1 * t \<le> a * t" using a t by (intro mult_right_mono) simp_all
    then show ?thesis using small by simp
  qed
  have b51: "b < 2 ^ 51" using ba a51 by simp
  have ar1: "1 \<le> ar" and ar51: "ar < 2 ^ 51" and arpos: "0 < ar"
    using a a51 by (simp_all add: ar_def)
  have br: "(1::rat) \<le> of_int b" "(of_int b :: rat) < 2 ^ 51" using b b51 by simp_all
  have tr: "(1::rat) \<le> of_int t" "(of_int t :: rat) < 2 ^ 51" using t t51 by simp_all
  have x1pos: "0 < x1" using b t by (simp add: x1_def)
  have x1_lo: "1 / 2 ^ 51 \<le> x1"
  proof -
    have "(1::rat) / 2 ^ 51 \<le> 1 / of_int b" using br by (simp add: field_simps)
    also have "\<dots> \<le> of_int t / of_int b" using tr br by (simp add: divide_right_mono)
    finally show ?thesis by (simp add: x1_def)
  qed
  have x1_hi: "x1 < 2 ^ 51"
  proof -
    have "of_int t / of_int b \<le> (of_int t :: rat) / 1"
      using tr br by (intro divide_left_mono) simp_all
    then show ?thesis using tr by (simp add: x1_def)
  qed
  \<comment> \<open>the quotient\<close>
  have "1 / 2 ^ 1022 \<le> x1" using x1_lo by (rule order_trans[rotated]) simp
  moreover have "x1 < 2 ^ 1023" using x1_hi by (rule less_trans) simp
  ultimately obtain f where f: "round_double x1 = Finite f" "\<bar>f - x1\<bar> \<le> x1 / 2 ^ 53"
    using round_double_err by blast
  have div_eq: "int_truediv t b = Inr f"
    using b f(1) by (simp add: int_truediv_def x1_def)
  \<comment> \<open>the converted integer\<close>
  have "1 / 2 ^ 1022 \<le> ar" using ar1 by (rule order_trans[rotated]) simp
  moreover have "ar < 2 ^ 1023" using ar51 by (rule less_trans) simp
  ultimately obtain af where af: "round_double ar = Finite af" "\<bar>af - ar\<bar> \<le> ar / 2 ^ 53"
    using round_double_err by blast
  have conv_eq: "int_to_float a = Inr af"
    using af(1) by (simp add: int_to_float_def ar_def)
  \<comment> \<open>the product\<close>
  have af_b: "ar * (1 - 1 / 2 ^ 53) \<le> af" "af \<le> ar * (1 + 1 / 2 ^ 53)"
    using rel_err_bounds[OF af(2)] by simp_all
  have f_b: "x1 * (1 - 1 / 2 ^ 53) \<le> f" "f \<le> x1 * (1 + 1 / 2 ^ 53)"
    using rel_err_bounds[OF f(2)] by simp_all
  have af_lo: "1 / 2 \<le> af" using af_b(1) ar1 by (simp add: field_simps)
  have af_hi: "af \<le> 2 ^ 52" using af_b(2) ar51 by (simp add: field_simps)
  have f_lo: "1 / 2 ^ 52 \<le> f" using f_b(1) x1_lo by (simp add: field_simps)
  have f_hi: "f \<le> 2 ^ 52" using f_b(2) x1_hi by (simp add: field_simps)
  have y_lo: "(1 / 2) * (1 / 2 ^ 52) \<le> af * f"
    using af_lo f_lo by (intro mult_mono) simp_all
  have y_hi: "af * f \<le> 2 ^ 52 * 2 ^ 52"
    using af_hi f_hi af_lo f_lo by (intro mult_mono) simp_all
  have "1 / 2 ^ 1022 \<le> af * f" using y_lo by (rule order_trans[rotated]) simp
  moreover have "af * f < 2 ^ 1023" using y_hi by (rule le_less_trans) simp
  ultimately obtain F where F: "round_double (af * f) = Finite F"
      "\<bar>F - af * f\<bar> \<le> (af * f) / 2 ^ 53"
    using round_double_err by blast
  have mul_eq: "int_mul_float a f = Inr (Finite F)"
    using conv_eq F(1) by (simp add: int_mul_float_def float_mul_def)
  \<comment> \<open>the accumulated error\<close>
  define x :: rat where "x = ar * x1"
  have xpos: "0 < x" using arpos x1pos by (simp add: x_def)
  have Fx: "x - x / 2 ^ 51 \<le> F" "F \<le> x + x / 2 ^ 51"
    using triple_rounding[OF arpos x1pos af(2) f(2) F(2)] by (simp_all add: x_def)
  have F0: "0 \<le> F"
  proof -
    have "0 \<le> x - x / 2 ^ 51" using xpos by (simp add: field_simps)
    then show ?thesis using Fx(1) by simp
  qed
  have res: "scaled_side a t b = Inr \<lfloor>F\<rfloor>"
    using div_eq mul_eq F0 by (simp add: scaled_side_def float_to_int_def)
  \<comment> \<open>from the rational bound to the integer quotient\<close>
  define n where "n = (a * t) div b"
  define r where "r = (a * t) mod b"
  have r_b: "0 \<le> r" "r < b" using b by (simp_all add: r_def)
  have at: "a * t = n * b + r" by (simp add: n_def r_def)
  have brpos: "(0::rat) < of_int b" using b by simp
  have xb: "x * of_int b = of_int (a * t)"
    using b by (simp add: x_def ar_def x1_def)
  have x_eq: "x = of_int n + of_int r / of_int b"
  proof -
    have "x = of_int (a * t) / of_int b" using xb brpos by (simp add: field_simps)
    then show ?thesis using brpos by (simp add: at field_simps)
  qed
  have slack: "x / 2 ^ 51 < 1 / of_int b"
  proof -
    have "(of_int (a * t) :: rat) < of_int (2 ^ 51)" using small by (simp only: of_int_less_iff)
    then have "x * of_int b < 2 ^ 51" using xb by simp
    then show ?thesis using brpos by (simp add: field_simps)
  qed
  have up: "F < of_int n + 1"
  proof -
    have "of_int r + 1 \<le> (of_int b :: rat)" using r_b(2) by (metis of_int_1 of_int_add of_int_le_iff zless_imp_add1_zle)
    then have "(of_int r + 1) / of_int b \<le> (1::rat)" using brpos by simp
    moreover have "F < x + 1 / of_int b" using Fx(2) slack by linarith
    ultimately show ?thesis using brpos by (simp add: x_eq add_divide_distrib) 
  qed
  have low: "of_int n - 1 / of_int b < F"
  proof -
    have "0 \<le> of_int r / (of_int b :: rat)" using r_b(1) brpos by simp
    then have "of_int n \<le> x" by (simp add: x_eq)
    then show ?thesis using Fx(1) slack by linarith
  qed
  have c1: "\<lfloor>F\<rfloor> \<le> n"
  proof -
    have "F < of_int (n + 1)" using up by simp
    then have "\<lfloor>F\<rfloor> < n + 1" by (simp only: floor_less_iff)
    then show ?thesis by simp
  qed
  have c2: "n - 1 \<le> \<lfloor>F\<rfloor>"
  proof -
    have "1 / of_int b \<le> (1::rat)" using br(1) by simp
    then have "of_int (n - 1) \<le> F" using low by simp
    then show ?thesis by (simp only: le_floor_iff)
  qed
  have c3: "n \<le> \<lfloor>F\<rfloor>" if "r \<noteq> 0"
  proof -
    have "1 \<le> r" using that r_b(1) by simp
    then have "(1::rat) \<le> of_int r" by simp
    then have "1 / of_int b \<le> of_int r / (of_int b :: rat)" using brpos by (simp add: divide_right_mono)
    then have "of_int n + 1 / of_int b \<le> x" by (simp add: x_eq)
    then have "of_int n \<le> F" using Fx(1) slack by linarith
    then show ?thesis by (simp only: le_floor_iff)
  qed
  show ?thesis using res c1 c2 c3 by (auto simp: n_def r_def)
qed

text \<open>
  The overflow test of \<open>round_double_pos\<close> by bit lengths, as a code equation: it spares
  the evaluation of \<open>2 ^ 1024\<close>.
\<close>

lemma overflow_test:
  fixes m q :: int
  shows "((2::rat) ^ 1024 \<le> of_int m * 2 powi q) \<longleftrightarrow> (0 < m \<and> 1024 < q + bitlen m)"
proof (cases "0 < m")
  case False
  then have "of_int m * (2::rat) powi q \<le> 0"
    by (simp add: mult_le_0_iff zero_le_power_int)
  moreover have "(0::rat) < 2 ^ 1024" by simp
  ultimately show ?thesis using False by linarith
next
  case True
  have b1: "1 \<le> bitlen m" using True by (simp add: bitlen_alt_def)
  have lo: "(2::rat) powi (bitlen m - 1) \<le> of_int m"
  proof -
    have "(of_int ((2::int) ^ nat (bitlen m - 1)) :: rat) \<le> of_int m"
      using bitlen_bounds[OF True] by (simp only: of_int_le_iff)
    then show ?thesis using b1 by (simp add: power_int_def)
  qed
  have hi: "of_int m < (2::rat) powi (bitlen m)"
  proof -
    have "(of_int m :: rat) < of_int ((2::int) ^ nat (bitlen m))"
      using bitlen_bounds[OF True] by (simp only: of_int_less_iff)
    then show ?thesis using b1 by (simp add: power_int_def)
  qed
  have qp: "(0::rat) < 2 powi q" by (simp add: zero_less_power_int)
  show ?thesis
  proof (cases "1024 < q + bitlen m")
    case big: True
    have "(2::rat) ^ 1024 = 2 powi 1024" by simp
    also have "\<dots> \<le> 2 powi (bitlen m - 1 + q)"
      using big by (intro power_int_increasing) simp_all
    also have "\<dots> = 2 powi (bitlen m - 1) * 2 powi q" by (simp add: power_int_add)
    also have "\<dots> \<le> of_int m * 2 powi q" using lo qp by (simp only: mult_le_cancel_right_pos)
    finally show ?thesis using True big by simp
  next
    case small: False
    have "of_int m * (2::rat) powi q < 2 powi (bitlen m) * 2 powi q"
      using hi qp by (simp only: mult_less_cancel_right_pos)
    also have "\<dots> = 2 powi (bitlen m + q)" by (simp add: power_int_add)
    also have "\<dots> \<le> 2 powi 1024"
      using small by (intro power_int_increasing) simp_all
    also have "\<dots> = 2 ^ 1024" by simp
    finally show ?thesis using small by simp
  qed
qed

lemma round_double_pos_code [code]:
  "round_double_pos x =
     (let q = max (ilog2 x - 52) (- 1074);
          m = round_half_even (x / 2 powi q)
      in if 0 < m \<and> 1024 < q + bitlen m then PosInf else Finite (of_int m * 2 powi q))"
  unfolding round_double_pos_def Let_def overflow_test ..

lemma output_dimensions_total:
  assumes "0 < w" "0 < h" "0 < t" "w * t < 2 ^ 51" "h * t < 2 ^ 51"
  shows "\<exists>r. output_dimensions w h t = Inr r"
proof (cases "h < w")
  case True
  then have "h \<le> w" by simp
  from scaled_side_bounds[OF assms(1) assms(2) assms(3) this assms(4)]
  show ?thesis using True by (auto simp: output_dimensions_def)
next
  case False
  then have "w \<le> h" by simp
  from scaled_side_bounds[OF assms(2) assms(1) assms(3) this assms(5)]
  show ?thesis using False by (auto simp: output_dimensions_def)
qed

lemma calculate_tile_settings_total:
  assumes "0 < w" "0 < h" "0 < t" "w * t < 2 ^ 51" "h * t < 2 ^ 51"
  shows "\<exists>plan. calculate_tile_settings w h t = Inr plan"
proof -
  obtain r where "output_dimensions w h t = Inr r"
    using output_dimensions_total[OF assms] by blast
  then show ?thesis
    by (cases r) (simp add: calculate_tile_settings_def Let_def)
qed

lemma truncation_one_below_example:
  "output_dimensions 6272 3136 64 = Inr (127, 64) \<and> (6272 * 64) div 3136 = (128::int)"
  by code_simp

subsection \<open>The claims about the planner\<close>

text \<open>
  C1, as the specification states it: the longer output side is
  \<open>round(width * target_resolution / height)\<close>. For a 5 by 3 image and a target of 64 the
  exact value is 106.67, which rounds to 107; the source truncates the float product
  with \<open>int\<close> and yields 106.
\<close>

theorem C1_rounding_counterexample:
  "output_dimensions 5 3 64 = Inr (106, 64) \<and> round ((5 * 64 / 3)::rat) = (107::int)"
  by code_simp

text \<open>
  C1, amended: for a positive width and height and a target resolution of at least 64,
  with \<open>width * target_resolution\<close> and \<open>height * target_resolution\<close> below \<open>2 ^ 51\<close>, the
  shorter source side maps exactly to the target resolution and the longer side is the
  proportional value truncated, not rounded: it is the integer quotient
  \<open>(longer * target_resolution) div shorter\<close>, or one less than that quotient, which the
  float arithmetic allows only when the division is exact.
\<close>

theorem C1_output_dimensions_truncate:
  assumes "0 < w" and "0 < h" and "64 \<le> t"
    and "w * t < 2 ^ 51" and "h * t < 2 ^ 51"
  shows "if h < w
         then \<exists>out_width. output_dimensions w h t = Inr (out_width, t)
                \<and> (w * t) div h - 1 \<le> out_width \<and> out_width \<le> (w * t) div h
                \<and> ((w * t) mod h \<noteq> 0 \<longrightarrow> out_width = (w * t) div h)
         else \<exists>out_height. output_dimensions w h t = Inr (t, out_height)
                \<and> (h * t) div w - 1 \<le> out_height \<and> out_height \<le> (h * t) div w
                \<and> ((h * t) mod w \<noteq> 0 \<longrightarrow> out_height = (h * t) div w)"
proof (cases "h < w")
  case True
  have tpos: "0 < t" using assms(3) by simp
  have "h \<le> w" using True by simp
  from scaled_side_bounds[OF assms(1) assms(2) tpos this assms(4)]
  show ?thesis using True by (auto simp: output_dimensions_def)
next
  case False
  have tpos: "0 < t" using assms(3) by simp
  have "w \<le> h" using False by simp
  from scaled_side_bounds[OF assms(2) assms(1) tpos this assms(5)]
  show ?thesis using False by (auto simp: output_dimensions_def)
qed

theorem C1_output_dimensions_truncate_witness:
  "(0::int) < 5 \<and> (0::int) < 3 \<and> (64::int) \<le> 64 \<and> (5::int) * 64 < 2 ^ 51 \<and> (3::int) * 64 < 2 ^ 51
   \<and> output_dimensions 5 3 64 = Inr (106, 64)"
proof -
  have "\<exists>out_width. output_dimensions 5 3 64 = Inr (out_width, 64)
          \<and> (5 * 64) div 3 - 1 \<le> out_width \<and> out_width \<le> (5 * 64) div 3
          \<and> ((5 * 64) mod 3 \<noteq> (0::int) \<longrightarrow> out_width = (5 * 64) div 3)"
    using C1_output_dimensions_truncate[of 5 3 64] by simp
  then show ?thesis by auto
qed

text \<open>
  C2: the tile size is a step function of \<open>max_dim = max out_width out_height\<close>:
  512 up to 1024, 512 up to 2048, 384 up to 4096, and 256 above; so 1024 and 2048 give 512,
  2049 and 4096 give 384, and 4097 gives 256.
\<close>

theorem C2_tile_size_step:
  assumes "output_dimensions w h t = Inr (out_width, out_height)"
  shows "\<exists>tile_size tile_overlap blocks_to_swap.
           calculate_tile_settings w h t = Inr (tile_size, tile_overlap, blocks_to_swap)
           \<and> tile_size = (let max_dim = max out_width out_height
                          in if max_dim \<le> 1024 then 512
                             else if max_dim \<le> 2048 then 512
                             else if max_dim \<le> 4096 then 384
                             else 256)
           \<and> (max out_width out_height = 1024 \<longrightarrow> tile_size = 512)
           \<and> (max out_width out_height = 2048 \<longrightarrow> tile_size = 512)
           \<and> (max out_width out_height = 2049 \<longrightarrow> tile_size = 384)
           \<and> (max out_width out_height = 4096 \<longrightarrow> tile_size = 384)
           \<and> (max out_width out_height = 4097 \<longrightarrow> tile_size = 256)
           \<and> select_tile_size 1024 = 512 \<and> select_tile_size 2048 = 512
           \<and> select_tile_size 2049 = 384 \<and> select_tile_size 4096 = 384
           \<and> select_tile_size 4097 = 256"
  using assms by (auto simp: calculate_tile_settings_def select_tile_size_def Let_def)

theorem C2_tile_size_step_witness:
  "output_dimensions 2048 1024 1024 = Inr (2048, 1024)
   \<and> (\<exists>tile_overlap blocks_to_swap.
         calculate_tile_settings 2048 1024 1024 = Inr (512, tile_overlap, blocks_to_swap))
   \<and> output_dimensions 2049 1024 1024 = Inr (2049, 1024)
   \<and> (\<exists>tile_overlap blocks_to_swap.
         calculate_tile_settings 2049 1024 1024 = Inr (384, tile_overlap, blocks_to_swap))
   \<and> output_dimensions 4097 1024 1024 = Inr (4097, 1024)
   \<and> (\<exists>tile_overlap blocks_to_swap.
         calculate_tile_settings 4097 1024 1024 = Inr (256, tile_overlap, blocks_to_swap))"
proof -
  have a: "output_dimensions 2048 1024 1024 = Inr (2048, 1024)" by code_simp
  have b: "output_dimensions 2049 1024 1024 = Inr (2049, 1024)" by code_simp
  have c: "output_dimensions 4097 1024 1024 = Inr (4097, 1024)" by code_simp
  show ?thesis
    using a b c C2_tile_size_step[OF a] C2_tile_size_step[OF b] C2_tile_size_step[OF c]
    by simp
qed

text \<open>
  C3: the number of blocks to swap is a step function of
  \<open>total_pixels = out_width * out_height\<close> with strict comparisons: 32 above 40,000,000,
  24 above 25,000,000, 16 above 16,000,000, 8 above 9,000,000, and 0 otherwise; so
  9,000,000 gives 0 and 9,000,001 gives 8.
\<close>

theorem C3_blocks_to_swap_step:
  assumes "output_dimensions w h t = Inr (out_width, out_height)"
  shows "\<exists>tile_size tile_overlap blocks_to_swap.
           calculate_tile_settings w h t = Inr (tile_size, tile_overlap, blocks_to_swap)
           \<and> blocks_to_swap = (let total_pixels = out_width * out_height
                               in if total_pixels > 40000000 then 32
                                  else if total_pixels > 25000000 then 24
                                  else if total_pixels > 16000000 then 16
                                  else if total_pixels > 9000000 then 8
                                  else 0)
           \<and> (out_width * out_height = 9000000 \<longrightarrow> blocks_to_swap = 0)
           \<and> (out_width * out_height = 9000001 \<longrightarrow> blocks_to_swap = 8)
           \<and> (out_width * out_height = 40000001 \<longrightarrow> blocks_to_swap = 32)
           \<and> select_blocks_to_swap 9000000 = 0 \<and> select_blocks_to_swap 9000001 = 8
           \<and> select_blocks_to_swap 40000001 = 32"
  using assms by (auto simp: calculate_tile_settings_def select_blocks_to_swap_def Let_def)

theorem C3_blocks_to_swap_step_witness:
  "output_dimensions 3000 3000 3000 = Inr (3000, 3000)
   \<and> (\<exists>tile_size tile_overlap.
         calculate_tile_settings 3000 3000 3000 = Inr (tile_size, tile_overlap, 0))
   \<and> output_dimensions 3001 3000 3000 = Inr (3001, 3000)
   \<and> (\<exists>tile_size tile_overlap.
         calculate_tile_settings 3001 3000 3000 = Inr (tile_size, tile_overlap, 8))"
proof -
  have a: "output_dimensions 3000 3000 3000 = Inr (3000, 3000)" by code_simp
  have b: "output_dimensions 3001 3000 3000 = Inr (3001, 3000)" by code_simp
  show ?thesis
    using a b C3_blocks_to_swap_step[OF a] C3_blocks_to_swap_step[OF b]
    by simp
qed

text \<open>
  C4: the tile overlap is \<open>max(64, tile_size div 4)\<close> with floor division: it is at least
  64, and it is \<open>tile_size div 4\<close> whenever that exceeds 64.
\<close>

theorem C4_tile_overlap:
  assumes "calculate_tile_settings w h t = Inr (tile_size, tile_overlap, blocks_to_swap)"
  shows "tile_overlap = max 64 (tile_size div 4) \<and> 64 \<le> tile_overlap
         \<and> (64 < tile_size div 4 \<longrightarrow> tile_overlap = tile_size div 4)"
  using assms
  by (auto simp: calculate_tile_settings_def Let_def split: sum.splits prod.splits)

theorem C4_tile_overlap_witness:
  "calculate_tile_settings 1920 1080 1080 = Inr (512, 128, 0)
   \<and> (128::int) = max 64 (512 div 4) \<and> (64::int) \<le> 128"
proof -
  have a: "calculate_tile_settings 1920 1080 1080 = Inr (512, 128, 0)" by code_simp
  have b: "(128::int) = max 64 (512 div 4) \<and> (64::int) \<le> 128
           \<and> ((64::int) < 512 div 4 \<longrightarrow> (128::int) = 512 div 4)"
    by (rule C4_tile_overlap[OF a])
  show ?thesis using a b by blast
qed

text \<open>
  C10: whatever the planner returns lies in fixed finite sets: the tile size in
  \<open>{256, 384, 512}\<close>, the tile overlap in \<open>{64, 96, 128}\<close>, the blocks to swap in
  \<open>{0, 8, 16, 24, 32}\<close>; and the overlap is at most half the tile size.
\<close>

theorem C10_planner_ranges:
  assumes "0 < w" and "0 < h" and "64 \<le> t"
    and "calculate_tile_settings w h t = Inr (tile_size, tile_overlap, blocks_to_swap)"
  shows "tile_size \<in> {256, 384, 512} \<and> tile_overlap \<in> {64, 96, 128}
         \<and> blocks_to_swap \<in> {0, 8, 16, 24, 32} \<and> tile_overlap \<le> tile_size div 2"
  using assms(4)
  by (auto simp: calculate_tile_settings_def select_tile_size_def select_blocks_to_swap_def
        Let_def split: sum.splits prod.splits if_splits)

theorem C10_planner_ranges_witness:
  "(0::int) < 8000 \<and> (0::int) < 6000 \<and> (64::int) \<le> 6000
   \<and> calculate_tile_settings 8000 6000 6000 = Inr (256, 64, 32)
   \<and> (256::int) \<in> {256, 384, 512} \<and> (64::int) \<in> {64, 96, 128}
   \<and> (32::int) \<in> {0, 8, 16, 24, 32} \<and> (64::int) \<le> 256 div 2"
proof -
  have a: "calculate_tile_settings 8000 6000 6000 = Inr (256, 64, 32)" by code_simp
  show ?thesis using a C10_planner_ranges[OF _ _ _ a] by simp
qed


section \<open>Properties of the invoker and of the request\<close>

subsection \<open>Arguments that are not option names\<close>

lemma digits_chars: "set (digits n) \<subseteq> set ''0123456789''"
proof (induction n rule: digits.induct)
  case (1 n)
  show ?case
  proof (cases "n < 10")
    case True
    then have "''0123456789'' ! n \<in> set ''0123456789''" by (intro nth_mem) simp
    then show ?thesis using True by (subst digits.simps) simp
  next
    case False
    have "n mod 10 < 10" by simp
    then have "''0123456789'' ! (n mod 10) \<in> set ''0123456789''" by (intro nth_mem) simp
    then show ?thesis using False 1 by (subst digits.simps) simp
  qed
qed

lemma digits_no_dash: "CHR ''-'' \<notin> set (digits n)"
  using digits_chars[of n] by auto

lemma int_text_not_option: "\<not> is_option (int_text n)"
proof
  assume opt: "is_option (int_text n)"
  then obtain a b rest where s: "int_text n = a # b # rest" and ab: "a = CHR ''-''" "b = CHR ''-''"
    by (cases "int_text n" rule: is_option.cases) auto
  show False
  proof (cases "n < 0")
    case True
    then have "b \<in> set (digits (nat (- n)))" using s by (auto simp: int_text_def)
    then show False using ab digits_no_dash by blast
  next
    case False
    then have "a \<in> set (digits (nat n))" using s by (auto simp: int_text_def)
    then show False using ab digits_no_dash by blast
  qed
qed

lemma str_int_text: "str_int limit n = Inr s \<Longrightarrow> s = int_text n"
  by (auto simp: str_int_def Let_def split: if_splits)

lemma option_neq: "\<not> is_option s \<Longrightarrow> is_option f \<Longrightarrow> f \<noteq> s"
  by auto

lemma option_neq_int_text: "is_option f \<Longrightarrow> f \<noteq> int_text n"
  using int_text_not_option by auto

lemma neq_path_join: "last f \<noteq> last file \<Longrightarrow> file \<noteq> [] \<Longrightarrow> f \<noteq> path_join dir file"
  by (auto simp: path_join_def)

subsection \<open>The shape of the command\<close>

lemma build_command_shape:
  assumes "build_command env img request = Inr cmd"
  shows "\<exists>tile_size tile_overlap blocks_to_swap.
           calculate_tile_settings (width img) (height img) (resolution request)
             = Inr (tile_size, tile_overlap, blocks_to_swap)
           \<and> cmd =
               [executable env, path_join (repo_dir env) ''inference_cli.py'',
                path_join (tmpdir env) ''input.png'',
                ''--output'', path_join (tmpdir env) ''output'',
                ''--resolution'', int_text (resolution request),
                ''--seed'', int_text (seed request),
                ''--color_correction'', color_correction request,
                ''--batch_size'', ''1'']
               @ (if 0 < max_resolution request
                  then [''--max_resolution'', int_text (max_resolution request)] else [])
               @ (if float_gt_zero (input_noise_scale request)
                  then [''--input_noise_scale'', str_float env (input_noise_scale request)] else [])
               @ (if float_gt_zero (latent_noise_scale request)
                  then [''--latent_noise_scale'', str_float env (latent_noise_scale request)] else [])
               @ [''--vae_encode_tiled'', ''--vae_decode_tiled'',
                  ''--vae_encode_tile_size'', int_text tile_size,
                  ''--vae_decode_tile_size'', int_text tile_size,
                  ''--vae_encode_tile_overlap'', int_text tile_overlap,
                  ''--vae_decode_tile_overlap'', int_text tile_overlap]
               @ (if 0 < blocks_to_swap
                  then [''--blocks_to_swap'', int_text blocks_to_swap,
                        ''--dit_offload_device'', ''cpu'', ''--swap_io_components'']
                  else [])"
proof -
  define limit where "limit = int_max_str_digits env"
  note defs = build_command_def Let_def limit_def[symmetric]
  obtain rs where rs: "str_int limit (resolution request) = Inr rs"
    using assms by (cases "str_int limit (resolution request)") (simp_all add: defs)
  obtain ss where ss: "str_int limit (seed request) = Inr ss"
    using assms rs by (cases "str_int limit (seed request)") (simp_all add: defs)
  have ms: "0 < max_resolution request \<Longrightarrow>
              str_int limit (max_resolution request) = Inr (int_text (max_resolution request))"
    using assms rs ss
    by (cases "str_int limit (max_resolution request)") (simp_all add: defs str_int_text)
  obtain plan where p: "calculate_tile_settings (width img) (height img) (resolution request)
                          = Inr plan"
    using assms rs ss ms
    by (cases "calculate_tile_settings (width img) (height img) (resolution request)")
       (simp_all add: defs split: if_splits)
  obtain tile_size tile_overlap blocks_to_swap
    where plan: "plan = (tile_size, tile_overlap, blocks_to_swap)"
    by (cases plan) auto
  obtain ts where ts: "str_int limit tile_size = Inr ts"
    using assms rs ss ms p plan
    by (cases "str_int limit tile_size") (simp_all add: defs split: if_splits)
  obtain os where os: "str_int limit tile_overlap = Inr os"
    using assms rs ss ms p plan ts
    by (cases "str_int limit tile_overlap") (simp_all add: defs split: if_splits)
  have bs: "0 < blocks_to_swap \<Longrightarrow>
              str_int limit blocks_to_swap = Inr (int_text blocks_to_swap)"
    using assms rs ss ms p plan ts os
    by (cases "str_int limit blocks_to_swap")
       (simp_all add: defs str_int_text split: if_splits)
  have texts: "rs = int_text (resolution request)" "ss = int_text (seed request)"
    "ts = int_text tile_size" "os = int_text tile_overlap"
    using rs ss ts os by (simp_all add: str_int_text)
  have "cmd =
               [executable env, path_join (repo_dir env) ''inference_cli.py'',
                path_join (tmpdir env) ''input.png'',
                ''--output'', path_join (tmpdir env) ''output'',
                ''--resolution'', int_text (resolution request),
                ''--seed'', int_text (seed request),
                ''--color_correction'', color_correction request,
                ''--batch_size'', ''1'']
               @ (if 0 < max_resolution request
                  then [''--max_resolution'', int_text (max_resolution request)] else [])
               @ (if float_gt_zero (input_noise_scale request)
                  then [''--input_noise_scale'', str_float env (input_noise_scale request)] else [])
               @ (if float_gt_zero (latent_noise_scale request)
                  then [''--latent_noise_scale'', str_float env (latent_noise_scale request)] else [])
               @ [''--vae_encode_tiled'', ''--vae_decode_tiled'',
                  ''--vae_encode_tile_size'', int_text tile_size,
                  ''--vae_decode_tile_size'', int_text tile_size,
                  ''--vae_encode_tile_overlap'', int_text tile_overlap,
                  ''--vae_decode_tile_overlap'', int_text tile_overlap]
               @ (if 0 < blocks_to_swap
                  then [''--blocks_to_swap'', int_text blocks_to_swap,
                        ''--dit_offload_device'', ''cpu'', ''--swap_io_components'']
                  else [])"
    using assms rs ss ms p plan ts os bs texts
    by (simp add: defs split: if_splits)
  then show ?thesis using p plan by blast
qed

lemma build_command_resolution_too_long:
  "str_int (int_max_str_digits env) (resolution request) = Inl e
   \<Longrightarrow> build_command env img request = Inl e"
  by (simp add: build_command_def Let_def)

lemma try_block_empty_image:
  "mkdir_output env = None \<Longrightarrow> width img \<le> 0 \<or> height img \<le> 0
   \<Longrightarrow> try_block env img request = Inl ValueError"
  by (auto simp: try_block_def save_image_def)

subsection \<open>The sample invocations, evaluated\<close>

lemma sample_plan: "calculate_tile_settings 8000 6000 6000 = Inr (256, 64, 32)"
  by code_simp

lemma small_plan: "calculate_tile_settings 1920 1080 1080 = Inr (512, 128, 0)"
  by code_simp

lemma sample_digits:
  "str_int 4300 6000 = Inr ''6000''" "str_int 4300 42 = Inr ''42''"
  "str_int 4300 256 = Inr ''256''" "str_int 4300 64 = Inr ''64''"
  "str_int 4300 32 = Inr ''32''" "str_int 4300 1080 = Inr ''1080''"
  "str_int 4300 512 = Inr ''512''" "str_int 4300 128 = Inr ''128''"
  by (simp_all add: str_int_def int_text_def digits.simps)

lemma sample_build: "build_command sample_env sample_image sample_request = Inr sample_cmd"
  by (simp add: build_command_def sample_env_def sample_image_def sample_request_def
        sample_cmd_def sample_plan sample_digits sample_str_float_def path_join_def
        float_gt_zero_def)

lemma small_build:
  "build_command sample_env small_image (small_request mode) = Inr (small_cmd mode)"
  by (simp add: build_command_def sample_env_def small_image_def small_request_def
        small_cmd_def small_plan sample_digits path_join_def float_gt_zero_def)

lemma sample_not_options:
  "\<not> is_option (executable sample_env)"
  "\<not> is_option (color_correction sample_request)"
  "\<forall>x. \<not> is_option (str_float sample_env x)"
  by (auto simp: sample_env_def sample_request_def sample_str_float_def split: pyfloat.splits)

lemma sample_staged:
  "mkdir_output sample_env = None" "save_image sample_env sample_image = None"
  by (simp_all add: sample_env_def sample_image_def save_image_def)

subsection \<open>The claims about the command\<close>

text \<open>
  C5, as the specification states it: for every request the command contains the
  max-resolution flag if and only if \<open>max_resolution\<close> is positive. The colour-correction
  mode is an unchecked string that the source puts into the command as it is: a request
  with the mode \<open>--max_resolution\<close> and a \<open>max_resolution\<close> of 0 yields a command that
  contains \<open>--max_resolution\<close>.
\<close>

theorem C5_option_name_counterexample:
  "build_command sample_env small_image (small_request ''--max_resolution'')
     = Inr (small_cmd ''--max_resolution'')
   \<and> max_resolution (small_request ''--max_resolution'') = 0
   \<and> ''--max_resolution'' \<in> set (small_cmd ''--max_resolution'')"
  by (simp add: small_build) (simp add: small_request_def small_cmd_def)

text \<open>
  C5, amended: for every request whose colour-correction mode is not an option name (it
  does not start with two dashes, as none of the documented modes does), run where the
  interpreter path and the rendering of a float are not option names either, the command
  contains the max-resolution flag exactly when \<open>max_resolution\<close> is positive, the
  input-noise-scale flag exactly when \<open>input_noise_scale\<close> is positive, the
  latent-noise-scale flag exactly when \<open>latent_noise_scale\<close> is positive, and always the
  tiled-encode and tiled-decode flags followed by the plan's tile size and tile overlap
  for both encode and decode.
\<close>

theorem C5_command_flags:
  assumes exe: "\<not> is_option (executable env)"
    and col: "\<not> is_option (color_correction request)"
    and flt: "\<forall>x. \<not> is_option (str_float env x)"
    and built: "build_command env img request = Inr cmd"
  shows "(''--max_resolution'' \<in> set cmd \<longleftrightarrow> 0 < max_resolution request)
       \<and> (''--input_noise_scale'' \<in> set cmd \<longleftrightarrow> float_gt_zero (input_noise_scale request))
       \<and> (''--latent_noise_scale'' \<in> set cmd \<longleftrightarrow> float_gt_zero (latent_noise_scale request))
       \<and> ''--vae_encode_tiled'' \<in> set cmd \<and> ''--vae_decode_tiled'' \<in> set cmd
       \<and> (\<exists>tile_size tile_overlap blocks_to_swap pre post.
             calculate_tile_settings (width img) (height img) (resolution request)
               = Inr (tile_size, tile_overlap, blocks_to_swap)
             \<and> cmd = pre @ [''--vae_encode_tiled'', ''--vae_decode_tiled'',
                             ''--vae_encode_tile_size'', int_text tile_size,
                             ''--vae_decode_tile_size'', int_text tile_size,
                             ''--vae_encode_tile_overlap'', int_text tile_overlap,
                             ''--vae_decode_tile_overlap'', int_text tile_overlap] @ post)"
proof -
  obtain tile_size tile_overlap blocks_to_swap base opt1 opt2 opt3 tiling offload where
    plan: "calculate_tile_settings (width img) (height img) (resolution request)
             = Inr (tile_size, tile_overlap, blocks_to_swap)"
    and base: "base = [executable env, path_join (repo_dir env) ''inference_cli.py'',
                path_join (tmpdir env) ''input.png'',
                ''--output'', path_join (tmpdir env) ''output'',
                ''--resolution'', int_text (resolution request),
                ''--seed'', int_text (seed request),
                ''--color_correction'', color_correction request,
                ''--batch_size'', ''1'']"
    and opt1: "opt1 = (if 0 < max_resolution request
                  then [''--max_resolution'', int_text (max_resolution request)] else [])"
    and opt2: "opt2 = (if float_gt_zero (input_noise_scale request)
                  then [''--input_noise_scale'', str_float env (input_noise_scale request)] else [])"
    and opt3: "opt3 = (if float_gt_zero (latent_noise_scale request)
                  then [''--latent_noise_scale'', str_float env (latent_noise_scale request)] else [])"
    and tiling: "tiling = [''--vae_encode_tiled'', ''--vae_decode_tiled'',
                  ''--vae_encode_tile_size'', int_text tile_size,
                  ''--vae_decode_tile_size'', int_text tile_size,
                  ''--vae_encode_tile_overlap'', int_text tile_overlap,
                  ''--vae_decode_tile_overlap'', int_text tile_overlap]"
    and offload: "offload = (if 0 < blocks_to_swap
                  then [''--blocks_to_swap'', int_text blocks_to_swap,
                        ''--dit_offload_device'', ''cpu'', ''--swap_io_components'']
                  else [])"
    and cmd: "cmd = base @ opt1 @ opt2 @ opt3 @ tiling @ offload"
    using build_command_shape[OF built] by blast
  have v1: "\<And>f. is_option f \<Longrightarrow> f \<noteq> executable env" using exe by auto
  have v2: "\<And>f. is_option f \<Longrightarrow> f \<noteq> color_correction request" using col by auto
  have v3: "\<And>f x. is_option f \<Longrightarrow> f \<noteq> str_float env x" using flt by auto
  note vals = v1 v2 v3 option_neq_int_text neq_path_join
  have m: "''--max_resolution'' \<in> set cmd \<longleftrightarrow> 0 < max_resolution request"
    unfolding cmd base opt1 opt2 opt3 tiling offload by (simp add: vals)
  have i: "''--input_noise_scale'' \<in> set cmd \<longleftrightarrow> float_gt_zero (input_noise_scale request)"
    unfolding cmd base opt1 opt2 opt3 tiling offload by (simp add: vals)
  have l: "''--latent_noise_scale'' \<in> set cmd \<longleftrightarrow> float_gt_zero (latent_noise_scale request)"
    unfolding cmd base opt1 opt2 opt3 tiling offload by (simp add: vals)
  have e: "''--vae_encode_tiled'' \<in> set cmd" unfolding cmd tiling by simp
  have d: "''--vae_decode_tiled'' \<in> set cmd" unfolding cmd tiling by simp
  have "cmd = (base @ opt1 @ opt2 @ opt3) @ tiling @ offload" by (simp add: cmd)
  then have s: "\<exists>tile_size tile_overlap blocks_to_swap pre post.
             calculate_tile_settings (width img) (height img) (resolution request)
               = Inr (tile_size, tile_overlap, blocks_to_swap)
             \<and> cmd = pre @ [''--vae_encode_tiled'', ''--vae_decode_tiled'',
                             ''--vae_encode_tile_size'', int_text tile_size,
                             ''--vae_decode_tile_size'', int_text tile_size,
                             ''--vae_encode_tile_overlap'', int_text tile_overlap,
                             ''--vae_decode_tile_overlap'', int_text tile_overlap] @ post"
    using plan unfolding tiling by blast
  show ?thesis using m i l e d s by blast
qed

theorem C5_command_flags_witness:
  "\<not> is_option (executable sample_env)
   \<and> \<not> is_option (color_correction sample_request)
   \<and> (\<forall>x. \<not> is_option (str_float sample_env x))
   \<and> build_command sample_env sample_image sample_request = Inr sample_cmd
   \<and> ''--max_resolution'' \<notin> set sample_cmd
   \<and> ''--input_noise_scale'' \<in> set sample_cmd
   \<and> ''--latent_noise_scale'' \<notin> set sample_cmd
   \<and> ''--vae_encode_tiled'' \<in> set sample_cmd \<and> ''--vae_decode_tiled'' \<in> set sample_cmd"
proof -
  have pos: "\<not> 0 < max_resolution sample_request"
    "float_gt_zero (input_noise_scale sample_request)"
    "\<not> float_gt_zero (latent_noise_scale sample_request)"
    by (simp_all add: sample_request_def float_gt_zero_def)
  from C5_command_flags[OF sample_not_options sample_build] pos
  have "''--max_resolution'' \<notin> set sample_cmd
   \<and> ''--input_noise_scale'' \<in> set sample_cmd
   \<and> ''--latent_noise_scale'' \<notin> set sample_cmd
   \<and> ''--vae_encode_tiled'' \<in> set sample_cmd \<and> ''--vae_decode_tiled'' \<in> set sample_cmd"
    by blast
  then show ?thesis using sample_not_options sample_build by blast
qed

text \<open>
  C6, as the specification states it: for every request none of the three offload
  arguments appears when \<open>blocks_to_swap\<close> is 0. A request with the colour-correction mode
  \<open>--swap_io_components\<close> for a 1920 by 1080 image has a plan with 0 blocks to swap, and
  its command contains \<open>--swap_io_components\<close> without \<open>--blocks_to_swap\<close> and without
  \<open>--dit_offload_device\<close>.
\<close>

theorem C6_option_name_counterexample:
  "build_command sample_env small_image (small_request ''--swap_io_components'')
     = Inr (small_cmd ''--swap_io_components'')
   \<and> calculate_tile_settings (width small_image) (height small_image)
        (resolution (small_request ''--swap_io_components'')) = Inr (512, 128, 0)
   \<and> ''--swap_io_components'' \<in> set (small_cmd ''--swap_io_components'')
   \<and> ''--blocks_to_swap'' \<notin> set (small_cmd ''--swap_io_components'')
   \<and> ''--dit_offload_device'' \<notin> set (small_cmd ''--swap_io_components'')"
  by (simp add: small_build) (simp add: small_request_def small_image_def small_cmd_def small_plan)

text \<open>
  C6, amended: for every request whose colour-correction mode is not an option name, run
  where the interpreter path and the rendering of a float are not option names either,
  the three offload arguments travel together: the command contains the block-swap count,
  the offload device \<open>cpu\<close> and the I/O-component swap flag exactly when the plan's
  \<open>blocks_to_swap\<close> is positive, and then as one run at the end of the command; when it is
  0 none of the three appears.
\<close>

theorem C6_offload_arguments:
  assumes exe: "\<not> is_option (executable env)"
    and col: "\<not> is_option (color_correction request)"
    and flt: "\<forall>x. \<not> is_option (str_float env x)"
    and built: "build_command env img request = Inr cmd"
  shows "\<exists>tile_size tile_overlap blocks_to_swap.
           calculate_tile_settings (width img) (height img) (resolution request)
             = Inr (tile_size, tile_overlap, blocks_to_swap)
           \<and> (''--blocks_to_swap'' \<in> set cmd \<longleftrightarrow> 0 < blocks_to_swap)
           \<and> (''--dit_offload_device'' \<in> set cmd \<longleftrightarrow> 0 < blocks_to_swap)
           \<and> (''--swap_io_components'' \<in> set cmd \<longleftrightarrow> 0 < blocks_to_swap)
           \<and> (0 < blocks_to_swap \<longrightarrow>
                 (\<exists>pre. cmd = pre @ [''--blocks_to_swap'', int_text blocks_to_swap,
                                      ''--dit_offload_device'', ''cpu'',
                                      ''--swap_io_components'']))
           \<and> (blocks_to_swap = 0 \<longrightarrow>
                 ''--blocks_to_swap'' \<notin> set cmd \<and> ''--dit_offload_device'' \<notin> set cmd
                 \<and> ''--swap_io_components'' \<notin> set cmd)"
proof -
  obtain tile_size tile_overlap blocks_to_swap base opt1 opt2 opt3 tiling offload where
    plan: "calculate_tile_settings (width img) (height img) (resolution request)
             = Inr (tile_size, tile_overlap, blocks_to_swap)"
    and base: "base = [executable env, path_join (repo_dir env) ''inference_cli.py'',
                path_join (tmpdir env) ''input.png'',
                ''--output'', path_join (tmpdir env) ''output'',
                ''--resolution'', int_text (resolution request),
                ''--seed'', int_text (seed request),
                ''--color_correction'', color_correction request,
                ''--batch_size'', ''1'']"
    and opt1: "opt1 = (if 0 < max_resolution request
                  then [''--max_resolution'', int_text (max_resolution request)] else [])"
    and opt2: "opt2 = (if float_gt_zero (input_noise_scale request)
                  then [''--input_noise_scale'', str_float env (input_noise_scale request)] else [])"
    and opt3: "opt3 = (if float_gt_zero (latent_noise_scale request)
                  then [''--latent_noise_scale'', str_float env (latent_noise_scale request)] else [])"
    and tiling: "tiling = [''--vae_encode_tiled'', ''--vae_decode_tiled'',
                  ''--vae_encode_tile_size'', int_text tile_size,
                  ''--vae_decode_tile_size'', int_text tile_size,
                  ''--vae_encode_tile_overlap'', int_text tile_overlap,
                  ''--vae_decode_tile_overlap'', int_text tile_overlap]"
    and offload: "offload = (if 0 < blocks_to_swap
                  then [''--blocks_to_swap'', int_text blocks_to_swap,
                        ''--dit_offload_device'', ''cpu'', ''--swap_io_components'']
                  else [])"
    and cmd: "cmd = base @ opt1 @ opt2 @ opt3 @ tiling @ offload"
    using build_command_shape[OF built] by blast
  have v1: "\<And>f. is_option f \<Longrightarrow> f \<noteq> executable env" using exe by auto
  have v2: "\<And>f. is_option f \<Longrightarrow> f \<noteq> color_correction request" using col by auto
  have v3: "\<And>f x. is_option f \<Longrightarrow> f \<noteq> str_float env x" using flt by auto
  note vals = v1 v2 v3 option_neq_int_text neq_path_join
  have b: "''--blocks_to_swap'' \<in> set cmd \<longleftrightarrow> 0 < blocks_to_swap"
    unfolding cmd base opt1 opt2 opt3 tiling offload by (simp add: vals)
  have d: "''--dit_offload_device'' \<in> set cmd \<longleftrightarrow> 0 < blocks_to_swap"
    unfolding cmd base opt1 opt2 opt3 tiling offload by (simp add: vals)
  have s: "''--swap_io_components'' \<in> set cmd \<longleftrightarrow> 0 < blocks_to_swap"
    unfolding cmd base opt1 opt2 opt3 tiling offload by (simp add: vals)
  have "cmd = (base @ opt1 @ opt2 @ opt3 @ tiling) @ offload" by (simp add: cmd)
  then have run: "0 < blocks_to_swap \<longrightarrow>
                 (\<exists>pre. cmd = pre @ [''--blocks_to_swap'', int_text blocks_to_swap,
                                      ''--dit_offload_device'', ''cpu'',
                                      ''--swap_io_components''])"
    unfolding offload by auto
  have none: "blocks_to_swap = 0 \<longrightarrow>
                 ''--blocks_to_swap'' \<notin> set cmd \<and> ''--dit_offload_device'' \<notin> set cmd
                 \<and> ''--swap_io_components'' \<notin> set cmd"
    using b d s by simp
  show ?thesis using plan b d s run none by blast
qed

theorem C6_offload_arguments_witness:
  "\<not> is_option (executable sample_env)
   \<and> \<not> is_option (color_correction sample_request)
   \<and> (\<forall>x. \<not> is_option (str_float sample_env x))
   \<and> build_command sample_env sample_image sample_request = Inr sample_cmd
   \<and> calculate_tile_settings 8000 6000 6000 = Inr (256, 64, 32)
   \<and> ''--blocks_to_swap'' \<in> set sample_cmd
   \<and> ''--dit_offload_device'' \<in> set sample_cmd
   \<and> ''--swap_io_components'' \<in> set sample_cmd"
proof -
  have plan: "calculate_tile_settings (width sample_image) (height sample_image)
                (resolution sample_request) = Inr (256, 64, 32)"
    by (simp add: sample_image_def sample_request_def sample_plan)
  from C6_offload_arguments[OF sample_not_options sample_build] plan
  have "''--blocks_to_swap'' \<in> set sample_cmd
   \<and> ''--dit_offload_device'' \<in> set sample_cmd
   \<and> ''--swap_io_components'' \<in> set sample_cmd"
    by auto
  moreover note sample_plan
  ultimately show ?thesis using sample_not_options sample_build by blast
qed

subsection \<open>The claims about the output and the cleanup\<close>


lemma locate_output_scratch_gone: "locate_output ScratchGone stdout = Inl FileNotFoundError"
  by (simp add: locate_output_def path_exists_def output_listing_def)



lemma sample_glob: "glob_png sample_listing = [''result.png'', ''other.png'']"
  by (simp add: glob_png_def sample_listing_def matches_png_def)

lemma sample_absent: "\<not> path_exists (Scratch (Some sample_listing)) ''input.png''"
  by (simp add: path_exists_def output_listing_def sample_listing_def)


text \<open>
  C8: whatever the body of the \<open>try\<close> statement yields (the loaded output, the error of a
  failed run, a timeout, or a missing output), the \<open>finally\<close> clause deletes the scratch
  directory with deletion errors ignored and raises nothing, so the invocation's outcome
  is the body's outcome whether or not the deletion worked; when the deletion works the
  scratch directory is gone afterwards, and a fresh scratch directory leaves the set of
  temporary directories as it was.
\<close>

theorem C8_cleanup_never_masks:
  "fst (upscale_with_cli env dirs img request) = try_block env img request
   \<and> fst (upscale_with_cli (env\<lparr>rmtree_succeeds := ok\<rparr>) dirs img request)
       = try_block env img request
   \<and> fst (finally_clause env (insert (tmpdir env) dirs)) = None
   \<and> snd (upscale_with_cli env dirs img request)
       = snd (rmtree_ignore_errors env (insert (tmpdir env) dirs))
   \<and> (rmtree_succeeds env \<longrightarrow> tmpdir env \<notin> snd (upscale_with_cli env dirs img request))
   \<and> (rmtree_succeeds env \<and> tmpdir env \<notin> dirs \<longrightarrow>
         snd (upscale_with_cli env dirs img request) = dirs)
   \<and> (\<not> rmtree_succeeds env \<longrightarrow>
         snd (upscale_with_cli env dirs img request) = insert (tmpdir env) dirs)"
proof -
  have cmd: "build_command (env\<lparr>rmtree_succeeds := ok\<rparr>) img request
               = build_command env img request"
    by (simp add: build_command_def Let_def split: sum.splits prod.splits)
  have load: "\<And>scratch file. load_output (env\<lparr>rmtree_succeeds := ok\<rparr>) scratch file
               = load_output env scratch file"
    by (simp add: load_output_def split: option.splits node.splits)
  have save: "save_image (env\<lparr>rmtree_succeeds := ok\<rparr>) img = save_image env img"
    by (simp add: save_image_def)
  have body: "try_block (env\<lparr>rmtree_succeeds := ok\<rparr>) img request = try_block env img request"
    by (simp add: try_block_def cmd load save
          split: option.splits sum.splits run_outcome.splits)
  show ?thesis
    by (auto simp: upscale_with_cli_def finally_clause_def rmtree_ignore_errors_def
          try_finally_def Let_def body)
qed

lemma sample_try_block:
  "try_block sample_env sample_image sample_request = Inr (''PNG-1'', 8000, 6000)"
proof -
  have ran: "subprocess_run sample_env sample_cmd
               = Completed 0 ''saved'' [] (Scratch (Some sample_listing))"
    by (simp add: sample_env_def)
  have loc: "locate_output (Scratch (Some sample_listing)) ''saved'' = Inr ''result.png''"
    by (simp add: locate_output_def output_listing_def sample_absent sample_glob)
  have load: "load_output sample_env (Scratch (Some sample_listing)) ''result.png''
                = Inr (''PNG-1'', 8000, 6000)"
    by (simp add: load_output_def output_listing_def sample_listing_def sample_env_def)
  show ?thesis by (simp add: try_block_def sample_staged sample_build ran loc load)
qed

lemma sample_failing_try_block:
  "try_block sample_failing_env sample_image sample_request
     = Inl (RuntimeError ''CLI failed: boom'')"
proof -
  have "build_command sample_failing_env sample_image sample_request = Inr sample_cmd"
    by (simp add: build_command_def sample_failing_env_def sample_env_def sample_image_def
          sample_request_def sample_cmd_def sample_plan sample_digits sample_str_float_def
          path_join_def float_gt_zero_def)
  moreover have "subprocess_run sample_failing_env sample_cmd
                   = Completed 1 [] ''boom'' (Scratch None)"
    by (simp add: sample_failing_env_def)
  moreover have "mkdir_output sample_failing_env = None"
    "save_image sample_failing_env sample_image = None"
    by (simp_all add: sample_failing_env_def sample_env_def sample_image_def save_image_def)
  ultimately show ?thesis by (simp add: try_block_def)
qed

theorem C8_cleanup_never_masks_witness:
  "rmtree_succeeds sample_env \<and> tmpdir sample_env \<notin> ({} :: string set)
   \<and> upscale_with_cli sample_env {} sample_image sample_request
       = (Inr (''PNG-1'', 8000, 6000), {})
   \<and> \<not> rmtree_succeeds sample_failing_env
   \<and> upscale_with_cli sample_failing_env {} sample_image sample_request
       = (Inl (RuntimeError ''CLI failed: boom''), {tmpdir sample_failing_env})"
proof -
  have ok: "rmtree_succeeds sample_env" by (simp add: sample_env_def)
  have bad: "\<not> rmtree_succeeds sample_failing_env" by (simp add: sample_failing_env_def)
  have fresh: "tmpdir sample_env \<notin> ({} :: string set)" by simp
  from C8_cleanup_never_masks[of sample_env "{}" sample_image sample_request True] ok fresh
  have a: "fst (upscale_with_cli sample_env {} sample_image sample_request)
             = try_block sample_env sample_image sample_request"
    and b: "snd (upscale_with_cli sample_env {} sample_image sample_request) = {}"
    by blast+
  from C8_cleanup_never_masks[of sample_failing_env "{}" sample_image sample_request False] bad
  have c: "fst (upscale_with_cli sample_failing_env {} sample_image sample_request)
             = try_block sample_failing_env sample_image sample_request"
    and d: "snd (upscale_with_cli sample_failing_env {} sample_image sample_request)
             = {tmpdir sample_failing_env}"
    by blast+
  have "upscale_with_cli sample_env {} sample_image sample_request
          = (Inr (''PNG-1'', 8000, 6000), {})"
    using a b sample_try_block by (simp add: prod_eq_iff)
  moreover have "upscale_with_cli sample_failing_env {} sample_image sample_request
          = (Inl (RuntimeError ''CLI failed: boom''), {tmpdir sample_failing_env})"
    using c d sample_failing_try_block by (simp add: prod_eq_iff)
  ultimately show ?thesis using ok bad fresh by blast
qed

text \<open>
  C9: a resolution below 64, an explicit null and a missing field all end as the default
  1080; a resolution of 64 or more is kept. So the field always validates, and the
  resolution stored in the request, which is the one the planner and the command builder
  read, is at least 64.
\<close>

theorem C9_minimum_resolution:
  "64 \<le> ensure_minimum_resolution v
   \<and> (\<exists>r. resolution_field raw = Inr r \<and> 64 \<le> r
          \<and> r = (case raw of
                   Missing \<Rightarrow> 1080
                 | Given None \<Rightarrow> 1080
                 | Given (Some n) \<Rightarrow> if n < 64 then 1080 else n))"
  by (auto simp: resolution_field_def ensure_minimum_resolution_def Let_def
        split: field_input.splits option.splits)

theorem C9_minimum_resolution_witness:
  "ensure_minimum_resolution (Some 32) = 1080
   \<and> resolution_field (Given (Some 32)) = Inr 1080
   \<and> resolution_field (Given (Some 720)) = Inr 720
   \<and> resolution_field (Given None) = Inr 1080
   \<and> resolution_field Missing = Inr 1080"
proof -
  have e: "ensure_minimum_resolution (Some 32) = 1080"
    by (simp add: ensure_minimum_resolution_def)
  show ?thesis
    using e C9_minimum_resolution[of "Some 32" "Given (Some 32)"]
      C9_minimum_resolution[of "Some 32" "Given (Some 720)"]
      C9_minimum_resolution[of "Some 32" "Given None"]
      C9_minimum_resolution[of "Some 32" Missing]
    by auto
qed

end
